theory Spec2Isabelle
  imports Complex_Main
begin

section \<open>The harvester activity handler of chiadog\<close>

text \<open>
  A shallow embedding of \<^verbatim>\<open>src/chia_log/handlers/harvester_activity_handler.py\<close>:
  the handler, its four condition checkers and the values they exchange. Every
  \<^verbatim>\<open>check\<close> method mutates its object and returns an optional event; here it takes the
  object's state and returns the new state together with the optional event. The
  \<^verbatim>\<open>logging\<close> calls are diagnostics and are left out.
\<close>

subsection \<open>Values of the Python standard library\<close>

text \<open>
  A \<^verbatim>\<open>datetime\<close> is a point on the proleptic Gregorian time line with microsecond
  resolution; it is modelled by its number of microseconds since the first representable
  instant. Only differences of timestamps are ever used by the handler.
\<close>

type_synonym datetime = int

text \<open>
  A \<^verbatim>\<open>timedelta\<close> stores days, seconds and microseconds, normalised by the
  constructor so that \<open>0 \<le> seconds < 86400\<close> and \<open>0 \<le> microseconds < 1000000\<close>; only
  \<open>days\<close> carries the sign. Python's \<^verbatim>\<open>divmod\<close> rounds towards minus infinity, as
  \<open>div\<close> and \<open>mod\<close> on \<open>int\<close> do.
\<close>

record timedelta =
  days :: int
  seconds :: int
  microseconds :: int

definition timedelta_of_microseconds :: "int \<Rightarrow> timedelta" where
  "timedelta_of_microseconds us =
     \<lparr>days = us div 86400000000,
      seconds = (us div 1000000) mod 86400,
      microseconds = us mod 1000000\<rparr>"

text \<open>\<^verbatim>\<open>datetime.__sub__\<close>: the exact difference of two timestamps.\<close>

definition datetime_sub :: "datetime \<Rightarrow> datetime \<Rightarrow> timedelta" where
  "datetime_sub a b = timedelta_of_microseconds (a - b)"

text \<open>\<^verbatim>\<open>timedelta.total_seconds()\<close>, the signed length of the interval in seconds.\<close>

definition total_seconds :: "timedelta \<Rightarrow> real" where
  "total_seconds d =
     (real_of_int (days d) * 86400000000 + real_of_int (seconds d) * 1000000
        + real_of_int (microseconds d)) / 1000000"

text \<open>
  A Python \<^verbatim>\<open>float\<close> is used in two ways by the handler: it is compared with an
  integer constant, which Python does exactly on the number the float denotes, and it is
  formatted into a message. The model keeps the denoted number and the text that
  formatting yields.
\<close>

record pyfloat =
  float_value :: real
  float_repr :: string

text \<open>Formatting an \<^verbatim>\<open>int\<close> in an f-string: decimal digits, a minus sign when negative.\<close>

definition digit_char :: "nat \<Rightarrow> char" where
  "digit_char d = ''0123456789'' ! d"

fun str_nat :: "nat \<Rightarrow> string" where
  "str_nat n = (if n < 10 then [digit_char n] else str_nat (n div 10) @ [digit_char (n mod 10)])"

declare str_nat.simps [simp del]

definition str_int :: "int \<Rightarrow> string" where
  "str_int i = (if i < 0 then CHR ''-'' # str_nat (nat (- i)) else str_nat (nat i))"

subsection \<open>Messages and events\<close>

text \<open>
  Modelled from the spec: the declarations of \<^verbatim>\<open>HarvesterActivityMessage\<close> (the parser
  module) and of \<^verbatim>\<open>Event\<close>, \<^verbatim>\<open>EventType\<close>, \<^verbatim>\<open>EventPriority\<close> and
  \<^verbatim>\<open>EventService\<close> (the notifier module) are imported by the handler and not part of the
  sources at hand. The fields and members are the ones the handler uses; of the services
  only \<^verbatim>\<open>HARVESTER\<close> occurs.
\<close>

record HarvesterActivityMessage =
  timestamp :: datetime
  total_plots_count :: int
  search_time_seconds :: pyfloat
  found_proofs_count :: int

datatype EventType = KEEPALIVE | USER

datatype EventPriority = LOW | NORMAL | HIGH

datatype EventService = HARVESTER

record Event =
  type :: EventType
  priority :: EventPriority
  service :: EventService
  message :: string

subsection \<open>TimeSinceLastFarmEvent\<close>

record TimeSinceLastFarmEvent =
  info_threshold :: int
  warning_threshold :: int
  last_timestamp :: "datetime option"

definition TimeSinceLastFarmEvent_init :: TimeSinceLastFarmEvent where
  "TimeSinceLastFarmEvent_init =
     \<lparr>info_threshold = 30, warning_threshold = 60, last_timestamp = None\<rparr>"

definition time_since_message :: "int \<Rightarrow> string" where
  "time_since_message seconds_since_last =
     ''Experiencing networking issues? Harvester did not participate in any challenge ''
     @ ''for '' @ str_int seconds_since_last @ '' seconds. It'' @ [CHR 0x27] @ ''s now working again.''"

definition TimeSinceLastFarmEvent_check ::
  "TimeSinceLastFarmEvent \<Rightarrow> HarvesterActivityMessage \<Rightarrow> TimeSinceLastFarmEvent \<times> Event option" where
  "TimeSinceLastFarmEvent_check self obj =
     (case last_timestamp self of
        None \<Rightarrow> (self\<lparr>last_timestamp := Some (timestamp obj)\<rparr>, None)
      | Some last_ts \<Rightarrow>
          (let seconds_since_last = seconds (datetime_sub (timestamp obj) last_ts);
               event =
                 (if seconds_since_last > warning_threshold self
                  then Some \<lparr>type = USER, priority = NORMAL, service = HARVESTER,
                             message = time_since_message seconds_since_last\<rparr>
                  else if seconds_since_last > info_threshold self
                  then None \<comment> \<open>this branch only writes to the log\<close>
                  else None)
           in (self\<lparr>last_timestamp := Some (timestamp obj)\<rparr>, event)))"

subsection \<open>NonDecreasingPlots\<close>

record NonDecreasingPlots =
  max_farmed_plots :: int

definition NonDecreasingPlots_init :: NonDecreasingPlots where
  "NonDecreasingPlots_init = \<lparr>max_farmed_plots = 0\<rparr>"

definition increased_message :: "int \<Rightarrow> string" where
  "increased_message n = ''The total plot count increased to '' @ str_int n @ ''.''"

definition decreased_message :: "int \<Rightarrow> int \<Rightarrow> string" where
  "decreased_message m n =
     ''Disconnected HDD? The total plot count decreased from ''
     @ str_int m @ '' to '' @ str_int n @ ''.''"

text \<open>
  The method is two \<^verbatim>\<open>if\<close> statements in sequence, not an \<^verbatim>\<open>if\<close>/\<^verbatim>\<open>elif\<close>: the
  second one reads the field that the first one may just have assigned. Each statement is
  a step on the pair of the object's state and the local variable \<^verbatim>\<open>event\<close>.
\<close>

definition plots_increased_step ::
  "HarvesterActivityMessage \<Rightarrow> NonDecreasingPlots \<times> Event option \<Rightarrow> NonDecreasingPlots \<times> Event option" where
  "plots_increased_step obj st =
     (case st of (self, event) \<Rightarrow>
        if total_plots_count obj > max_farmed_plots self
        then (self\<lparr>max_farmed_plots := total_plots_count obj\<rparr>,
              Some \<lparr>type = USER, priority = LOW, service = HARVESTER,
                    message = increased_message (total_plots_count obj)\<rparr>)
        else (self, event))"

definition plots_decreased_step ::
  "HarvesterActivityMessage \<Rightarrow> NonDecreasingPlots \<times> Event option \<Rightarrow> NonDecreasingPlots \<times> Event option" where
  "plots_decreased_step obj st =
     (case st of (self, event) \<Rightarrow>
        if total_plots_count obj < max_farmed_plots self
        then (self,
              Some \<lparr>type = USER, priority = HIGH, service = HARVESTER,
                    message = decreased_message (max_farmed_plots self) (total_plots_count obj)\<rparr>)
        else (self, event))"

definition NonDecreasingPlots_check ::
  "NonDecreasingPlots \<Rightarrow> HarvesterActivityMessage \<Rightarrow> NonDecreasingPlots \<times> Event option" where
  "NonDecreasingPlots_check self obj =
     (case plots_decreased_step obj (plots_increased_step obj (self, None)) of
        (self', event) \<Rightarrow> (self'\<lparr>max_farmed_plots := total_plots_count obj\<rparr>, event))"

subsection \<open>QuickPlotSearchTime\<close>

record QuickPlotSearchTime =
  search_warning_threshold :: int

definition QuickPlotSearchTime_init :: QuickPlotSearchTime where
  "QuickPlotSearchTime_init = \<lparr>search_warning_threshold = 25\<rparr>"

definition search_time_message :: "pyfloat \<Rightarrow> string" where
  "search_time_message t = ''Seeking plots took too long: '' @ float_repr t @ '' seconds!''"

definition QuickPlotSearchTime_check ::
  "QuickPlotSearchTime \<Rightarrow> HarvesterActivityMessage \<Rightarrow> QuickPlotSearchTime \<times> Event option" where
  "QuickPlotSearchTime_check self obj =
     (if float_value (search_time_seconds obj) > real_of_int (search_warning_threshold self)
      then (self, Some \<lparr>type = USER, priority = NORMAL, service = HARVESTER,
                        message = search_time_message (search_time_seconds obj)\<rparr>)
      else (self, None))"

subsection \<open>FoundProofs\<close>

definition found_proofs_message :: "int \<Rightarrow> string" where
  "found_proofs_message n = ''Found '' @ str_int n @ '' proof(s)!''"

definition FoundProofs_check :: "HarvesterActivityMessage \<Rightarrow> Event option" where
  "FoundProofs_check obj =
     (if found_proofs_count obj > 0
      then Some \<lparr>type = USER, priority = LOW, service = HARVESTER,
                 message = found_proofs_message (found_proofs_count obj)\<rparr>
      else None)"

subsection \<open>The common interface and the handler\<close>

text \<open>
  The subclasses of the abstract \<^verbatim>\<open>HarvesterConditionChecker\<close> are the variants of one
  datatype, each carrying the state of its object; \<^verbatim>\<open>FoundProofs\<close> has no attributes.
  \<open>check\<close> is the dynamic dispatch of \<^verbatim>\<open>checker.check(msg)\<close>.
\<close>

datatype HarvesterConditionChecker =
    TimeSinceLastFarmEventChecker TimeSinceLastFarmEvent
  | NonDecreasingPlotsChecker NonDecreasingPlots
  | QuickPlotSearchTimeChecker QuickPlotSearchTime
  | FoundProofsChecker

fun check ::
  "HarvesterConditionChecker \<Rightarrow> HarvesterActivityMessage \<Rightarrow> HarvesterConditionChecker \<times> Event option" where
  "check (TimeSinceLastFarmEventChecker self) obj =
     (case TimeSinceLastFarmEvent_check self obj of
        (self', event) \<Rightarrow> (TimeSinceLastFarmEventChecker self', event))"
| "check (NonDecreasingPlotsChecker self) obj =
     (case NonDecreasingPlots_check self obj of
        (self', event) \<Rightarrow> (NonDecreasingPlotsChecker self', event))"
| "check (QuickPlotSearchTimeChecker self) obj =
     (case QuickPlotSearchTime_check self obj of
        (self', event) \<Rightarrow> (QuickPlotSearchTimeChecker self', event))"
| "check FoundProofsChecker obj = (FoundProofsChecker, FoundProofs_check obj)"

text \<open>
  The handler owns the parser and the list of checkers. The parser class is outside the
  sources at hand; its \<^verbatim>\<open>parse\<close> method is the field \<open>parser\<close>, a function from the
  log text to the messages found in it.
\<close>

record HarvesterActivityHandler =
  parser :: "string \<Rightarrow> HarvesterActivityMessage list"
  cond_checkers :: "HarvesterConditionChecker list"

definition HarvesterActivityHandler_init ::
  "(string \<Rightarrow> HarvesterActivityMessage list) \<Rightarrow> HarvesterActivityHandler" where
  "HarvesterActivityHandler_init parse =
     \<lparr>parser = parse,
      cond_checkers =
        [TimeSinceLastFarmEventChecker TimeSinceLastFarmEvent_init,
         NonDecreasingPlotsChecker NonDecreasingPlots_init,
         QuickPlotSearchTimeChecker QuickPlotSearchTime_init,
         FoundProofsChecker]\<rparr>"

definition keepalive_event :: Event where
  "keepalive_event = \<lparr>type = KEEPALIVE, priority = NORMAL, service = HARVESTER, message = ''''\<rparr>"

text \<open>
  The body of the inner loop for one checker: call \<^verbatim>\<open>check\<close> and append the event when
  there is one. An \<^verbatim>\<open>Event\<close> object is always true in a condition, so \<^verbatim>\<open>if event:\<close>
  tests for \<^verbatim>\<open>None\<close>.
\<close>

definition append_event :: "Event list \<Rightarrow> Event option \<Rightarrow> Event list" where
  "append_event events event = (case event of None \<Rightarrow> events | Some e \<Rightarrow> events @ [e])"

text \<open>The inner loop, over the checkers in their order of construction.\<close>

fun run_checkers ::
  "HarvesterConditionChecker list \<Rightarrow> HarvesterActivityMessage \<Rightarrow> Event list
     \<Rightarrow> HarvesterConditionChecker list \<times> Event list" where
  "run_checkers [] msg events = ([], events)"
| "run_checkers (checker # rest) msg events =
     (case check checker msg of
        (checker', event) \<Rightarrow>
          (case run_checkers rest msg (append_event events event) of
             (rest', events') \<Rightarrow> (checker' # rest', events')))"

text \<open>The outer loop, over the messages in the order the parser returned them.\<close>

fun run_messages ::
  "HarvesterConditionChecker list \<Rightarrow> HarvesterActivityMessage list \<Rightarrow> Event list
     \<Rightarrow> HarvesterConditionChecker list \<times> Event list" where
  "run_messages checkers [] events = (checkers, events)"
| "run_messages checkers (msg # msgs) events =
     (case run_checkers checkers msg events of
        (checkers', events') \<Rightarrow> run_messages checkers' msgs events')"

definition handle :: "HarvesterActivityHandler \<Rightarrow> string \<Rightarrow> HarvesterActivityHandler \<times> Event list" where
  "handle self logs =
     (let activity_messages = parser self logs;
          events = (if length activity_messages > 0 then [keepalive_event] else [])
      in case run_messages (cond_checkers self) activity_messages events of
           (checkers', events') \<Rightarrow> (self\<lparr>cond_checkers := checkers'\<rparr>, events'))"

subsection \<open>Runs and inputs used in the statements\<close>

text \<open>
  Consecutive calls of \<^verbatim>\<open>check\<close> on one checker object, one call per message, with the
  result of every call in order.
\<close>

fun check_all :: "HarvesterConditionChecker \<Rightarrow> HarvesterActivityMessage list \<Rightarrow> Event option list" where
  "check_all checker [] = []"
| "check_all checker (msg # msgs) =
     (case check checker msg of (checker', event) \<Rightarrow> event # check_all checker' msgs)"

text \<open>
  An unremarkable message logged at the given time: 100 plots, a search of 5 seconds, no
  proof.
\<close>

definition quiet_message :: "datetime \<Rightarrow> HarvesterActivityMessage" where
  "quiet_message t =
     \<lparr>timestamp = t, total_plots_count = 100,
      search_time_seconds = \<lparr>float_value = 5, float_repr = ''5.0''\<rparr>,
      found_proofs_count = 0\<rparr>"

text \<open>The two messages of the end-to-end scenario, 40 seconds apart.\<close>

definition scenario_message_1 :: HarvesterActivityMessage where
  "scenario_message_1 =
     \<lparr>timestamp = 0, total_plots_count = 100,
      search_time_seconds = \<lparr>float_value = 5, float_repr = ''5.0''\<rparr>,
      found_proofs_count = 0\<rparr>"

definition scenario_message_2 :: HarvesterActivityMessage where
  "scenario_message_2 =
     \<lparr>timestamp = 40000000, total_plots_count = 100,
      search_time_seconds = \<lparr>float_value = 5, float_repr = ''5.0''\<rparr>,
      found_proofs_count = 1\<rparr>"

definition scenario_parser :: "string \<Rightarrow> HarvesterActivityMessage list" where
  "scenario_parser logs = [scenario_message_1, scenario_message_2]"

text \<open>A parser that finds no activity in the text it is given.\<close>

definition silent_parser :: "string \<Rightarrow> HarvesterActivityMessage list" where
  "silent_parser logs = []"

text \<open>A parser that finds one unremarkable message.\<close>

definition single_parser :: "string \<Rightarrow> HarvesterActivityMessage list" where
  "single_parser logs = [quiet_message 0]"

text \<open>
  The double nearest to 25.01, which is what the literal \<^verbatim>\<open>25.01\<close> and
  \<^verbatim>\<open>float("25.01")\<close> denote: 7039689167533507 / 2^48.
\<close>

definition float_25_01 :: pyfloat where
  "float_25_01 = \<lparr>float_value = 7039689167533507 / 281474976710656, float_repr = ''25.01''\<rparr>"

definition float_25 :: pyfloat where
  "float_25 = \<lparr>float_value = 25, float_repr = ''25.0''\<rparr>"

section \<open>Properties\<close>

subsection \<open>Auxiliary facts\<close>

lemmas str_simps = str_int_def str_nat.simps digit_char_def

lemma seconds_datetime_sub:
  "seconds (datetime_sub a b) = ((a - b) div 1000000) mod 86400"
  by (simp add: datetime_sub_def timedelta_of_microseconds_def)

text \<open>
  The attribute \<^verbatim>\<open>seconds\<close> is the elapsed time in whole seconds exactly when the
  difference is not negative and shorter than one day.
\<close>

lemma seconds_truncated_within_a_day:
  assumes "0 \<le> a - b" and "a - b < 86400000000"
  shows "seconds (datetime_sub a b) = (a - b) div 1000000"
proof -
  have "0 \<le> (a - b) div 1000000" using assms(1) by simp
  moreover have "(a - b) div 1000000 < 86400" using assms(2) by simp
  ultimately show ?thesis by (simp add: seconds_datetime_sub)
qed

lemma same_timestamp_no_event:
  "snd (TimeSinceLastFarmEvent_check (TimeSinceLastFarmEvent_init\<lparr>last_timestamp := Some t\<rparr>)
         (obj\<lparr>timestamp := t\<rparr>)) = None"
  by (simp add: TimeSinceLastFarmEvent_init_def TimeSinceLastFarmEvent_check_def
      seconds_datetime_sub)

text \<open>The two statements of \<open>NonDecreasingPlots_check\<close> behave like one \<^verbatim>\<open>if\<close>/\<^verbatim>\<open>elif\<close>.\<close>

lemma NonDecreasingPlots_check_eq:
  "NonDecreasingPlots_check self obj =
     (\<lparr>max_farmed_plots = total_plots_count obj\<rparr>,
      if total_plots_count obj > max_farmed_plots self
      then Some \<lparr>type = USER, priority = LOW, service = HARVESTER,
                 message = increased_message (total_plots_count obj)\<rparr>
      else if total_plots_count obj < max_farmed_plots self
      then Some \<lparr>type = USER, priority = HIGH, service = HARVESTER,
                 message = decreased_message (max_farmed_plots self) (total_plots_count obj)\<rparr>
      else None)"
  by (simp add: NonDecreasingPlots_check_def plots_increased_step_def plots_decreased_step_def)

text \<open>Every event that a checker returns is a user event.\<close>

lemma check_event_type:
  assumes "snd (check checker obj) = Some e"
  shows "type e = USER"
proof (cases checker)
  case (TimeSinceLastFarmEventChecker self)
  with assms show ?thesis
    by (auto simp: TimeSinceLastFarmEvent_check_def Let_def split: option.splits if_splits)
next
  case (NonDecreasingPlotsChecker self)
  with assms show ?thesis
    by (auto simp: NonDecreasingPlots_check_eq split: if_splits)
next
  case (QuickPlotSearchTimeChecker self)
  with assms show ?thesis
    by (auto simp: QuickPlotSearchTime_check_def split: if_splits)
next
  case FoundProofsChecker
  with assms show ?thesis
    by (auto simp: FoundProofs_check_def split: if_splits)
qed

lemma append_event_user:
  "\<exists>new. append_event events (snd (check checker obj)) = events @ new
     \<and> list_all (\<lambda>e. type e = USER) new \<and> length new \<le> 1"
proof (cases "snd (check checker obj)")
  case None
  then show ?thesis by (simp add: append_event_def)
next
  case (Some e)
  then have "type e = USER" by (rule check_event_type)
  with Some show ?thesis by (simp add: append_event_def)
qed

text \<open>
  The loops only ever append to \<^verbatim>\<open>events\<close>: what was there stays in front, and one
  message adds at most one event per checker.
\<close>

lemma run_checkers_user:
  "\<exists>new. snd (run_checkers checkers obj events) = events @ new
     \<and> list_all (\<lambda>e. type e = USER) new \<and> length new \<le> length checkers"
proof (induction checkers arbitrary: events)
  case Nil
  then show ?case by simp
next
  case (Cons checker rest)
  obtain new1 where n1: "append_event events (snd (check checker obj)) = events @ new1"
    "list_all (\<lambda>e. type e = USER) new1" "length new1 \<le> 1"
    using append_event_user by blast
  obtain new2 where n2: "snd (run_checkers rest obj (events @ new1)) = (events @ new1) @ new2"
    "list_all (\<lambda>e. type e = USER) new2" "length new2 \<le> length rest"
    using Cons.IH by blast
  have "snd (run_checkers (checker # rest) obj events) = events @ (new1 @ new2)"
    using n1(1) n2(1)
    by (cases "check checker obj"; cases "run_checkers rest obj (events @ new1)") simp
  moreover have "list_all (\<lambda>e. type e = USER) (new1 @ new2)"
    using n1(2) n2(2) by simp
  moreover have "length (new1 @ new2) \<le> length (checker # rest)"
    using n1(3) n2(3) by simp
  ultimately show ?case by blast
qed

lemma run_messages_user:
  "\<exists>new. snd (run_messages checkers msgs events) = events @ new
     \<and> list_all (\<lambda>e. type e = USER) new"
proof (induction msgs arbitrary: checkers events)
  case Nil
  then show ?case by simp
next
  case (Cons msg msgs)
  obtain checkers' events' where r: "run_checkers checkers msg events = (checkers', events')"
    by (cases "run_checkers checkers msg events")
  obtain new1 where n1: "events' = events @ new1" "list_all (\<lambda>e. type e = USER) new1"
    using run_checkers_user [of checkers msg events] r by auto
  obtain new2 where n2: "snd (run_messages checkers' msgs events') = events' @ new2"
    "list_all (\<lambda>e. type e = USER) new2"
    using Cons.IH by blast
  have "snd (run_messages checkers (msg # msgs) events) = events @ (new1 @ new2)"
    using r n1(1) n2(1) by simp
  moreover have "list_all (\<lambda>e. type e = USER) (new1 @ new2)"
    using n1(2) n2(2) by simp
  ultimately show ?case by blast
qed

subsection \<open>The end-to-end scenario\<close>

text \<open>
  Claim C1 says that the two scenario messages yield exactly the keep-alive event and the
  found-proofs event. On a newly constructed handler this is not so: the plot checker
  starts from 0 plots, so the 100 plots of the first message are an increase and a third
  event stands between the two.
\<close>

theorem scenario_not_two_events:
  "snd (handle (HarvesterActivityHandler_init scenario_parser) []) \<noteq>
     [keepalive_event,
      \<lparr>type = USER, priority = LOW, service = HARVESTER, message = ''Found 1 proof(s)!''\<rparr>]"
  by (simp add: handle_def HarvesterActivityHandler_init_def scenario_parser_def
      scenario_message_1_def scenario_message_2_def TimeSinceLastFarmEvent_init_def
      NonDecreasingPlots_init_def QuickPlotSearchTime_init_def
      TimeSinceLastFarmEvent_check_def NonDecreasingPlots_check_eq QuickPlotSearchTime_check_def
      FoundProofs_check_def append_event_def seconds_datetime_sub)

text \<open>
  Claim C1, amended: when the parser returns exactly the two scenario messages, a newly
  constructed handler returns exactly three events, in this order: the keep-alive event,
  the low-priority event that the plot count increased to 100, and the low-priority
  found-proofs event for 1 proof. The gap of 40 seconds and the search time of 5 seconds
  add nothing.
\<close>

theorem scenario_fresh_handler_three_events:
  assumes "parse logs = [scenario_message_1, scenario_message_2]"
  shows "snd (handle (HarvesterActivityHandler_init parse) logs) =
     [\<lparr>type = KEEPALIVE, priority = NORMAL, service = HARVESTER, message = ''''\<rparr>,
      \<lparr>type = USER, priority = LOW, service = HARVESTER,
       message = ''The total plot count increased to 100.''\<rparr>,
      \<lparr>type = USER, priority = LOW, service = HARVESTER, message = ''Found 1 proof(s)!''\<rparr>]"
  using assms
  by (simp add: handle_def HarvesterActivityHandler_init_def keepalive_event_def
      scenario_message_1_def scenario_message_2_def TimeSinceLastFarmEvent_init_def
      NonDecreasingPlots_init_def QuickPlotSearchTime_init_def
      TimeSinceLastFarmEvent_check_def NonDecreasingPlots_check_eq QuickPlotSearchTime_check_def
      FoundProofs_check_def append_event_def seconds_datetime_sub
      increased_message_def found_proofs_message_def str_simps)

theorem scenario_fresh_handler_three_events_witness:
  "scenario_parser [] = [scenario_message_1, scenario_message_2] \<and>
   snd (handle (HarvesterActivityHandler_init scenario_parser) []) =
     [\<lparr>type = KEEPALIVE, priority = NORMAL, service = HARVESTER, message = ''''\<rparr>,
      \<lparr>type = USER, priority = LOW, service = HARVESTER,
       message = ''The total plot count increased to 100.''\<rparr>,
      \<lparr>type = USER, priority = LOW, service = HARVESTER, message = ''Found 1 proof(s)!''\<rparr>]"
proof -
  have h: "scenario_parser [] = [scenario_message_1, scenario_message_2]"
    by (simp add: scenario_parser_def)
  show ?thesis
    using h scenario_fresh_handler_three_events [of scenario_parser "[]", OF h] by simp
qed

subsection \<open>TimeSinceLastFarmEvent\<close>

text \<open>
  Claim C2 says that a message whose timestamp is not later than the recorded one raises no
  error and emits no event. No error is raised, and an equal timestamp emits nothing
  (\<open>same_timestamp_no_event\<close>), but an earlier timestamp does emit: the attribute
  \<^verbatim>\<open>seconds\<close> of a negative \<^verbatim>\<open>timedelta\<close> is not negative. With the recorded message
  at second 5 and the next one at second 0, the difference is \<open>-5\<close> seconds, stored as
  \<open>-1\<close> day and 86395 seconds, and the checker reports a pause of 86395 seconds.
\<close>

theorem earlier_timestamp_emits_event:
  "total_seconds (datetime_sub 0 5000000) = - 5
   \<and> seconds (datetime_sub 0 5000000) = 86395
   \<and> check_all (TimeSinceLastFarmEventChecker TimeSinceLastFarmEvent_init)
       [quiet_message 5000000, quiet_message 0] =
     [None,
      Some \<lparr>type = USER, priority = NORMAL, service = HARVESTER,
            message = ''Experiencing networking issues? Harvester did not participate in any challenge for 86395 seconds. It''
              @ [CHR 0x27] @ ''s now working again.''\<rparr>]"
proof -
  have "total_seconds (datetime_sub 0 5000000) = - 5"
    by (simp add: total_seconds_def datetime_sub_def timedelta_of_microseconds_def)
  moreover have "seconds (datetime_sub 0 5000000) = 86395"
    by (simp add: seconds_datetime_sub)
  moreover have "check_all (TimeSinceLastFarmEventChecker TimeSinceLastFarmEvent_init)
       [quiet_message 5000000, quiet_message 0] =
     [None,
      Some \<lparr>type = USER, priority = NORMAL, service = HARVESTER,
            message = ''Experiencing networking issues? Harvester did not participate in any challenge for 86395 seconds. It''
              @ [CHR 0x27] @ ''s now working again.''\<rparr>]"
    by (simp add: TimeSinceLastFarmEvent_init_def TimeSinceLastFarmEvent_check_def
        quiet_message_def seconds_datetime_sub time_since_message_def str_simps)
  ultimately show ?thesis by (intro conjI)
qed

text \<open>
  Claim C3: a call on a checker that has recorded no timestamp emits nothing, whatever the
  message. On a new checker, a second message exactly 61 seconds after the first emits one
  user event of normal priority, and a third message 5 seconds after the second emits
  nothing, since the second call recorded its timestamp. A second message exactly 30 or
  exactly 60 seconds after the first emits nothing.
\<close>

theorem time_since_last_event_boundaries:
  "snd (TimeSinceLastFarmEvent_check (self\<lparr>last_timestamp := None\<rparr>) obj) = None
   \<and> check_all (TimeSinceLastFarmEventChecker TimeSinceLastFarmEvent_init)
       [a, b\<lparr>timestamp := timestamp a + 61000000\<rparr>, c\<lparr>timestamp := timestamp a + 66000000\<rparr>] =
     [None,
      Some \<lparr>type = USER, priority = NORMAL, service = HARVESTER,
            message = ''Experiencing networking issues? Harvester did not participate in any challenge for 61 seconds. It''
              @ [CHR 0x27] @ ''s now working again.''\<rparr>,
      None]
   \<and> check_all (TimeSinceLastFarmEventChecker TimeSinceLastFarmEvent_init)
       [a, b\<lparr>timestamp := timestamp a + 30000000\<rparr>] = [None, None]
   \<and> check_all (TimeSinceLastFarmEventChecker TimeSinceLastFarmEvent_init)
       [a, b\<lparr>timestamp := timestamp a + 60000000\<rparr>] = [None, None]"
  by (simp add: TimeSinceLastFarmEvent_init_def TimeSinceLastFarmEvent_check_def
      seconds_datetime_sub time_since_message_def str_simps)

text \<open>
  Claim C8 says that the number compared with the thresholds is the timestamp difference in
  whole seconds, the fraction cut off. That holds for a difference from zero up to one day
  (\<open>seconds_truncated_within_a_day\<close>), where 60.9 seconds compare as 60. From one day on
  the whole days are missing from the number: a gap of one day and 60.9 seconds, 86460.9
  seconds in all, compares as 60 and emits nothing.
\<close>

theorem day_and_a_minute_compares_as_sixty:
  "total_seconds (datetime_sub 86460900000 0) = 864609 / 10
   \<and> seconds (datetime_sub 86460900000 0) = 60
   \<and> seconds (datetime_sub 60900000 0) = 60
   \<and> check_all (TimeSinceLastFarmEventChecker TimeSinceLastFarmEvent_init)
       [quiet_message 0, quiet_message 86460900000] = [None, None]"
proof -
  have "total_seconds (datetime_sub 86460900000 0) = 864609 / 10"
    by (simp add: total_seconds_def datetime_sub_def timedelta_of_microseconds_def)
  moreover have "seconds (datetime_sub 86460900000 0) = 60"
    by (simp add: seconds_datetime_sub)
  moreover have "seconds (datetime_sub 60900000 0) = 60"
    by (simp add: seconds_datetime_sub)
  moreover have "check_all (TimeSinceLastFarmEventChecker TimeSinceLastFarmEvent_init)
       [quiet_message 0, quiet_message 86460900000] = [None, None]"
    by (simp add: TimeSinceLastFarmEvent_init_def TimeSinceLastFarmEvent_check_def
        quiet_message_def seconds_datetime_sub)
  ultimately show ?thesis by (intro conjI)
qed

text \<open>
  Claim C10: the number of seconds that the checker compares is the difference of the
  timestamps in whole seconds modulo 86400, so whole days are dropped, and an event is
  emitted exactly when that remainder exceeds 60. A second message one day and 5 seconds
  after the first emits nothing; one day and 61 seconds after the first emits an event,
  which reports 61 seconds.
\<close>

theorem seconds_since_last_drops_whole_days:
  "seconds (datetime_sub (timestamp obj) t) = ((timestamp obj - t) div 1000000) mod 86400
   \<and> snd (TimeSinceLastFarmEvent_check (TimeSinceLastFarmEvent_init\<lparr>last_timestamp := Some t\<rparr>) obj) =
       (if ((timestamp obj - t) div 1000000) mod 86400 > 60
        then Some \<lparr>type = USER, priority = NORMAL, service = HARVESTER,
                   message = time_since_message (((timestamp obj - t) div 1000000) mod 86400)\<rparr>
        else None)
   \<and> check_all (TimeSinceLastFarmEventChecker TimeSinceLastFarmEvent_init)
       [a, b\<lparr>timestamp := timestamp a + 86405000000\<rparr>] = [None, None]
   \<and> check_all (TimeSinceLastFarmEventChecker TimeSinceLastFarmEvent_init)
       [a, b\<lparr>timestamp := timestamp a + 86461000000\<rparr>] =
       [None,
        Some \<lparr>type = USER, priority = NORMAL, service = HARVESTER,
          message = ''Experiencing networking issues? Harvester did not participate in any challenge for 61 seconds. It''
            @ [CHR 0x27] @ ''s now working again.''\<rparr>]"
proof -
  have sub: "seconds (datetime_sub (timestamp obj) t) = ((timestamp obj - t) div 1000000) mod 86400"
    by (rule seconds_datetime_sub)
  have gen: "snd (TimeSinceLastFarmEvent_check (TimeSinceLastFarmEvent_init\<lparr>last_timestamp := Some t\<rparr>) obj) =
       (if ((timestamp obj - t) div 1000000) mod 86400 > 60
        then Some \<lparr>type = USER, priority = NORMAL, service = HARVESTER,
                   message = time_since_message (((timestamp obj - t) div 1000000) mod 86400)\<rparr>
        else None)"
    by (simp add: TimeSinceLastFarmEvent_init_def TimeSinceLastFarmEvent_check_def
        seconds_datetime_sub)
  have day5: "check_all (TimeSinceLastFarmEventChecker TimeSinceLastFarmEvent_init)
       [a, b\<lparr>timestamp := timestamp a + 86405000000\<rparr>] = [None, None]"
    by (simp add: TimeSinceLastFarmEvent_init_def TimeSinceLastFarmEvent_check_def
        seconds_datetime_sub)
  have day61: "check_all (TimeSinceLastFarmEventChecker TimeSinceLastFarmEvent_init)
       [a, b\<lparr>timestamp := timestamp a + 86461000000\<rparr>] =
       [None,
        Some \<lparr>type = USER, priority = NORMAL, service = HARVESTER,
          message = ''Experiencing networking issues? Harvester did not participate in any challenge for 61 seconds. It''
            @ [CHR 0x27] @ ''s now working again.''\<rparr>]"
    by (simp add: TimeSinceLastFarmEvent_init_def TimeSinceLastFarmEvent_check_def
        seconds_datetime_sub time_since_message_def str_simps)
  from sub gen day5 day61 show ?thesis by (intro conjI)
qed

subsection \<open>NonDecreasingPlots\<close>

text \<open>
  Claim C4: a new plot checker that is given the plot counts 10, 15, 12 and 15, in messages
  that are otherwise arbitrary, returns four events in this order: low priority, increased
  to 10; low priority, increased to 15; high priority, decreased from 15 to 12; low
  priority, increased to 15. After every call the recorded count is the count of the
  message just seen.
\<close>

theorem plot_count_sequence_events:
  "check_all (NonDecreasingPlotsChecker NonDecreasingPlots_init)
     [a\<lparr>total_plots_count := 10\<rparr>, b\<lparr>total_plots_count := 15\<rparr>,
      c\<lparr>total_plots_count := 12\<rparr>, d\<lparr>total_plots_count := 15\<rparr>] =
   [Some \<lparr>type = USER, priority = LOW, service = HARVESTER,
          message = ''The total plot count increased to 10.''\<rparr>,
    Some \<lparr>type = USER, priority = LOW, service = HARVESTER,
          message = ''The total plot count increased to 15.''\<rparr>,
    Some \<lparr>type = USER, priority = HIGH, service = HARVESTER,
          message = ''Disconnected HDD? The total plot count decreased from 15 to 12.''\<rparr>,
    Some \<lparr>type = USER, priority = LOW, service = HARVESTER,
          message = ''The total plot count increased to 15.''\<rparr>]
   \<and> max_farmed_plots (fst (NonDecreasingPlots_check self obj)) = total_plots_count obj"
  by (simp add: NonDecreasingPlots_init_def NonDecreasingPlots_check_eq
      increased_message_def decreased_message_def str_simps)

subsection \<open>All checkers\<close>

text \<open>
  Claim C5: one call of \<^verbatim>\<open>check\<close>, on any of the four checkers in any state and for any
  message, makes the handler append at most one event, and one message adds at most as
  many events as there are checkers. In the plot checker the two conditions never hold in
  the same call: when the first one holds, its assignment makes the second one false, so
  the result is that of an \<^verbatim>\<open>if\<close>/\<^verbatim>\<open>elif\<close>.
\<close>

theorem check_at_most_one_event:
  "length (append_event events (snd (check checker obj))) \<le> length events + 1
   \<and> length (snd (run_checkers checkers obj events)) \<le> length events + length checkers
   \<and> \<not> (total_plots_count obj > max_farmed_plots self
         \<and> total_plots_count obj < max_farmed_plots (fst (plots_increased_step obj (self, None))))
   \<and> snd (NonDecreasingPlots_check self obj) =
       (if total_plots_count obj > max_farmed_plots self
        then Some \<lparr>type = USER, priority = LOW, service = HARVESTER,
                   message = increased_message (total_plots_count obj)\<rparr>
        else if total_plots_count obj < max_farmed_plots self
        then Some \<lparr>type = USER, priority = HIGH, service = HARVESTER,
                   message = decreased_message (max_farmed_plots self) (total_plots_count obj)\<rparr>
        else None)"
proof -
  have one: "length (append_event events (snd (check checker obj))) \<le> length events + 1"
    by (simp add: append_event_def split: option.splits)
  obtain new where "snd (run_checkers checkers obj events) = events @ new"
    and "length new \<le> length checkers"
    using run_checkers_user by blast
  then have per_message:
    "length (snd (run_checkers checkers obj events)) \<le> length events + length checkers"
    by simp
  have exclusive: "\<not> (total_plots_count obj > max_farmed_plots self
         \<and> total_plots_count obj < max_farmed_plots (fst (plots_increased_step obj (self, None))))"
    by (simp add: plots_increased_step_def)
  have elif: "snd (NonDecreasingPlots_check self obj) =
       (if total_plots_count obj > max_farmed_plots self
        then Some \<lparr>type = USER, priority = LOW, service = HARVESTER,
                   message = increased_message (total_plots_count obj)\<rparr>
        else if total_plots_count obj < max_farmed_plots self
        then Some \<lparr>type = USER, priority = HIGH, service = HARVESTER,
                   message = decreased_message (max_farmed_plots self) (total_plots_count obj)\<rparr>
        else None)"
    by (simp add: NonDecreasingPlots_check_eq)
  from one per_message exclusive elif show ?thesis by (intro conjI)
qed

subsection \<open>QuickPlotSearchTime\<close>

text \<open>
  Claim C9: the search-time checker returns one user event of normal priority when the
  search time is greater than 25 and nothing otherwise, so it emits exactly when the search
  time exceeds 25. A search time of exactly 25 emits nothing, a search time of 25.01 emits
  the event. The call leaves the checker as it was, whatever its threshold.
\<close>

theorem search_time_threshold:
  "snd (QuickPlotSearchTime_check QuickPlotSearchTime_init obj) =
     (if float_value (search_time_seconds obj) > 25
      then Some \<lparr>type = USER, priority = NORMAL, service = HARVESTER,
                 message = search_time_message (search_time_seconds obj)\<rparr>
      else None)
   \<and> (snd (QuickPlotSearchTime_check QuickPlotSearchTime_init obj) \<noteq> None)
       = (float_value (search_time_seconds obj) > 25)
   \<and> snd (QuickPlotSearchTime_check QuickPlotSearchTime_init
            (obj\<lparr>search_time_seconds := float_25\<rparr>)) = None
   \<and> snd (QuickPlotSearchTime_check QuickPlotSearchTime_init
            (obj\<lparr>search_time_seconds := float_25_01\<rparr>)) =
       Some \<lparr>type = USER, priority = NORMAL, service = HARVESTER,
             message = ''Seeking plots took too long: 25.01 seconds!''\<rparr>
   \<and> fst (QuickPlotSearchTime_check self obj) = self"
  by (simp add: QuickPlotSearchTime_check_def QuickPlotSearchTime_init_def float_25_def
      float_25_01_def search_time_message_def)

subsection \<open>The handler\<close>

text \<open>
  Claim C6: when the parser returns at least one message, the list that \<^verbatim>\<open>handle\<close>
  returns is not empty, its first element is the keep-alive event with normal priority, the
  harvester service and an empty message, and no later element is a keep-alive event. This
  holds for a handler in any state.
\<close>

theorem keepalive_first_and_only:
  assumes "parser self logs \<noteq> []"
  shows "snd (handle self logs) \<noteq> []
     \<and> hd (snd (handle self logs)) =
         \<lparr>type = KEEPALIVE, priority = NORMAL, service = HARVESTER, message = ''''\<rparr>
     \<and> list_all (\<lambda>e. type e \<noteq> KEEPALIVE) (tl (snd (handle self logs)))"
proof -
  obtain new where n: "snd (run_messages (cond_checkers self) (parser self logs) [keepalive_event])
      = [keepalive_event] @ new" "list_all (\<lambda>e. type e = USER) new"
    using run_messages_user by blast
  have "snd (handle self logs) = keepalive_event # new"
    using assms n(1)
    by (cases "run_messages (cond_checkers self) (parser self logs) [keepalive_event]")
       (simp add: handle_def)
  moreover have "list_all (\<lambda>e. type e \<noteq> KEEPALIVE) new"
    using n(2) by (simp add: list_all_iff)
  ultimately show ?thesis
    by (simp add: keepalive_event_def)
qed

theorem keepalive_first_and_only_witness:
  "parser (HarvesterActivityHandler_init single_parser) [] \<noteq> []
   \<and> snd (handle (HarvesterActivityHandler_init single_parser) []) \<noteq> []
   \<and> hd (snd (handle (HarvesterActivityHandler_init single_parser) [])) =
         \<lparr>type = KEEPALIVE, priority = NORMAL, service = HARVESTER, message = ''''\<rparr>
   \<and> list_all (\<lambda>e. type e \<noteq> KEEPALIVE)
        (tl (snd (handle (HarvesterActivityHandler_init single_parser) [])))"
proof -
  have h: "parser (HarvesterActivityHandler_init single_parser) [] \<noteq> []"
    by (simp add: HarvesterActivityHandler_init_def single_parser_def)
  show ?thesis using h keepalive_first_and_only [OF h] by simp
qed

text \<open>
  Claim C7: when the parser returns no message, \<^verbatim>\<open>handle\<close> returns the empty list, a
  list and not an absent value, and leaves every checker as it was: there is no keep-alive
  event and no checker is called.
\<close>

theorem no_messages_no_events:
  assumes "parser self logs = []"
  shows "handle self logs = (self, [])"
  using assms by (simp add: handle_def)

theorem no_messages_no_events_witness:
  "parser (HarvesterActivityHandler_init silent_parser) [] = []
   \<and> handle (HarvesterActivityHandler_init silent_parser) [] =
       (HarvesterActivityHandler_init silent_parser, [])"
proof -
  have h: "parser (HarvesterActivityHandler_init silent_parser) [] = []"
    by (simp add: HarvesterActivityHandler_init_def silent_parser_def)
  show ?thesis using h no_messages_no_events [OF h] by simp
qed

end
